theory Spec2Isabelle
  imports Main "HOL-Library.Sublist"
begin

section \<open>Go strings as byte lists\<close>

text \<open>
  A Go \<open>string\<close> is a sequence of bytes; it is modelled as \<^typ>\<open>string\<close>, a list of
  8-bit characters. The functions of package \<open>strings\<close> that \<open>main.go\<close> calls are
  written out below, under their Go names.
\<close>

definition strings_HasPrefix :: "string \<Rightarrow> string \<Rightarrow> bool" where
  "strings_HasPrefix s p = prefix p s"

definition strings_HasSuffix :: "string \<Rightarrow> string \<Rightarrow> bool" where
  "strings_HasSuffix s p = suffix p s"

text \<open>
  \<open>strings.Index(s, sep)\<close>: the byte offset of the first occurrence of \<open>sep\<close> in
  \<open>s\<close>; Go's \<open>-1\<close> is \<open>None\<close>.
\<close>

fun strings_Index :: "string \<Rightarrow> string \<Rightarrow> nat option" where
  "strings_Index [] sep = (if sep = [] then Some 0 else None)"
| "strings_Index (c # cs) sep =
     (if prefix sep (c # cs) then Some 0 else map_option Suc (strings_Index cs sep))"

text \<open>
  \<open>strings.SplitN(s, sep, n)\<close> for a count \<open>n \<ge> 0\<close> and a non-empty separator (the
  only call of the program passes \<open>"---"\<close> and \<open>2\<close>). Go's \<open>genSplit\<close> returns
  nothing for \<open>n = 0\<close>, lowers \<open>n\<close> to \<open>len(s) + 1\<close> when it is larger, cuts at the
  first \<open>n - 1\<close> occurrences of \<open>sep\<close> and leaves the unsplit remainder as the last
  piece. The last argument of the recursion is the number of cuts still allowed.
\<close>

fun genSplit :: "string \<Rightarrow> string \<Rightarrow> nat \<Rightarrow> string list" where
  "genSplit s sep 0 = [s]"
| "genSplit s sep (Suc n) =
     (case strings_Index s sep of
        None \<Rightarrow> [s]
      | Some m \<Rightarrow> take m s # genSplit (drop (m + length sep) s) sep n)"

definition strings_SplitN :: "string \<Rightarrow> string \<Rightarrow> nat \<Rightarrow> string list" where
  "strings_SplitN s sep n =
     (if n = 0 then [] else genSplit s sep (min n (length s + 1) - 1))"

subsection \<open>White space\<close>

text \<open>
  \<open>strings.TrimSpace\<close> removes all leading and trailing white space, as defined by
  Unicode, from a UTF-8 string. The white space code points are the six ASCII ones
  (tab, line feed, vertical tab, form feed, carriage return, space) and U+0085, U+00A0,
  U+1680, U+2000 to U+200A, U+2028, U+2029, U+202F, U+205F and U+3000, which occupy two
  or three bytes each. A byte sequence that is not valid UTF-8 decodes to U+FFFD, which
  is not white space, so trimming stops there.
\<close>

definition asciiSpace :: "char \<Rightarrow> bool" where
  "asciiSpace c \<longleftrightarrow>
     c = CHR 0x09 \<or> c = CHR 0x0A \<or> c = CHR 0x0B \<or> c = CHR 0x0C \<or> c = CHR 0x0D \<or> c = CHR 0x20"

definition unicodeSpaces :: "string list" where
  "unicodeSpaces =
     [[CHR 0xC2, CHR 0x85], [CHR 0xC2, CHR 0xA0], [CHR 0xE1, CHR 0x9A, CHR 0x80],
      [CHR 0xE2, CHR 0x80, CHR 0x80], [CHR 0xE2, CHR 0x80, CHR 0x81],
      [CHR 0xE2, CHR 0x80, CHR 0x82], [CHR 0xE2, CHR 0x80, CHR 0x83],
      [CHR 0xE2, CHR 0x80, CHR 0x84], [CHR 0xE2, CHR 0x80, CHR 0x85],
      [CHR 0xE2, CHR 0x80, CHR 0x86], [CHR 0xE2, CHR 0x80, CHR 0x87],
      [CHR 0xE2, CHR 0x80, CHR 0x88], [CHR 0xE2, CHR 0x80, CHR 0x89],
      [CHR 0xE2, CHR 0x80, CHR 0x8A], [CHR 0xE2, CHR 0x80, CHR 0xA8],
      [CHR 0xE2, CHR 0x80, CHR 0xA9], [CHR 0xE2, CHR 0x80, CHR 0xAF],
      [CHR 0xE2, CHR 0x81, CHR 0x9F], [CHR 0xE3, CHR 0x80, CHR 0x80]]"

text \<open>
  The width in bytes of the white space code point a string starts with (ends with),
  and \<open>0\<close> when it starts (ends) with none.
\<close>

definition leadingSpace :: "string \<Rightarrow> nat" where
  "leadingSpace s =
     (case s of
        [] \<Rightarrow> 0
      | c # cs \<Rightarrow>
          if asciiSpace c then 1
          else (case find (\<lambda>e. prefix e s) unicodeSpaces of None \<Rightarrow> 0 | Some e \<Rightarrow> length e))"

definition trailingSpace :: "string \<Rightarrow> nat" where
  "trailingSpace s =
     (if s = [] then 0
      else if asciiSpace (last s) then 1
      else (case find (\<lambda>e. suffix e s) unicodeSpaces of None \<Rightarrow> 0 | Some e \<Rightarrow> length e))"

lemma leadingSpace_Nil: "leadingSpace [] = 0"
  by (simp add: leadingSpace_def)

lemma trailingSpace_Nil: "trailingSpace [] = 0"
  by (simp add: trailingSpace_def)

function trimLeftSpace :: "string \<Rightarrow> string" where
  "trimLeftSpace s =
     (if leadingSpace s = 0 then s else trimLeftSpace (drop (leadingSpace s) s))"
  by pat_completeness auto
termination
proof (relation "measure length")
  show "wf (measure length)" by simp
next
  fix s :: string
  assume w: "leadingSpace s \<noteq> 0"
  then have "s \<noteq> []" using leadingSpace_Nil by auto
  with w show "(drop (leadingSpace s) s, s) \<in> measure length" by simp
qed

function trimRightSpace :: "string \<Rightarrow> string" where
  "trimRightSpace s =
     (if trailingSpace s = 0 then s
      else trimRightSpace (take (length s - trailingSpace s) s))"
  by pat_completeness auto
termination
proof (relation "measure length")
  show "wf (measure length)" by simp
next
  fix s :: string
  assume w: "trailingSpace s \<noteq> 0"
  then have "s \<noteq> []" using trailingSpace_Nil by auto
  with w show "(take (length s - trailingSpace s) s, s) \<in> measure length" by simp
qed

declare trimLeftSpace.simps [simp del] trimRightSpace.simps [simp del]

definition strings_TrimSpace :: "string \<Rightarrow> string" where
  "strings_TrimSpace s = trimRightSpace (trimLeftSpace s)"

section \<open>Data model\<close>

text \<open>
  A \<open>time.Time\<close> is an instant; its zero value is January 1 of year 1, 00:00:00 UTC.
  Instants are counted in nanoseconds from that moment.
\<close>

type_synonym Time = int

definition zeroTime :: Time where
  "zeroTime = 0"

text \<open>
  \<open>BlogMetadata\<close> holds the six frontmatter fields. \<open>BlogPost\<close> declares the same six
  fields, with the same names and types, followed by \<open>Content\<close> and \<open>HTMLContent\<close>; it
  is the record extension, so that the field names of the source are kept for both.
\<close>

record BlogMetadata =
  Title :: string
  Date :: Time
  Author :: string
  Description :: string
  Tags :: "string list"
  Slug :: string

record BlogPost = BlogMetadata +
  Content :: string
  HTMLContent :: string

text \<open>The zero value of \<open>BlogMetadata\<close>, which \<open>var metadata BlogMetadata\<close> declares.\<close>

definition zeroMetadata :: BlogMetadata where
  "zeroMetadata =
     \<lparr>Title = [], Date = zeroTime, Author = [], Description = [], Tags = [], Slug = []\<rparr>"

section \<open>Errors and collaborators\<close>

text \<open>
  A Go \<open>error\<close> of this program is either the error of a file system call, passed on as
  it is, or a value made by \<open>fmt.Errorf\<close>, which is determined by its message.
\<close>

datatype os_error = ErrNotExist | ErrPermission | ErrOther string

definition os_IsNotExist :: "os_error option \<Rightarrow> bool" where
  "os_IsNotExist err = (err = Some ErrNotExist)"

datatype go_error = OsError os_error | Errorf string

text \<open>
  The collaborators of the core: the three file system calls, the YAML deserializer and
  the Markdown renderer. \<open>os_Stat\<close> gives the error of \<open>os.Stat\<close> (\<open>None\<close> for \<open>nil\<close>);
  \<open>os_ReadDir\<close> gives the names of the entries in the order of enumeration;
  \<open>yaml_Unmarshal\<close> takes the text and the value its target holds before the call, and
  gives the message of its error or the value the target holds afterwards.
\<close>

record env =
  os_Stat :: "string \<Rightarrow> os_error option"
  os_ReadDir :: "string \<Rightarrow> os_error + string list"
  os_ReadFile :: "string \<Rightarrow> os_error + string"
  yaml_Unmarshal :: "string \<Rightarrow> BlogMetadata \<Rightarrow> string + BlogMetadata"
  blackfriday_Run :: "string \<Rightarrow> string"

section \<open>The parser\<close>

definition parseMarkdownFile :: "env \<Rightarrow> string \<Rightarrow> go_error + BlogPost" where
  "parseMarkdownFile E contentStr =
     (if \<not> strings_HasPrefix contentStr ''---'' then Inl (Errorf ''no frontmatter found'')
      else
        let parts = strings_SplitN (drop 3 contentStr) ''---'' 2 in
        if length parts \<noteq> 2 then Inl (Errorf ''invalid frontmatter format'')
        else
          let frontmatter = strings_TrimSpace (parts ! 0);
              markdownContent = strings_TrimSpace (parts ! 1)
          in
            case yaml_Unmarshal E frontmatter zeroMetadata of
              Inl err \<Rightarrow> Inl (Errorf (''error parsing frontmatter: '' @ err))
            | Inr metadata \<Rightarrow>
                let htmlContent = blackfriday_Run E markdownContent in
                Inr \<lparr>Title = Title metadata, Date = Date metadata, Author = Author metadata,
                     Description = Description metadata, Tags = Tags metadata,
                     Slug = Slug metadata, Content = markdownContent,
                     HTMLContent = htmlContent\<rparr>)"

section \<open>The content loader\<close>

definition contentDir :: string where
  "contentDir = ''./content''"

text \<open>
  \<open>filepath.Join(contentDir, file.Name())\<close>: the two elements joined by a slash and
  cleaned, which removes the leading \<open>./\<close> of \<open>contentDir\<close>. The name of a directory
  entry is a single path element, so nothing else is rewritten.
\<close>

definition filePath :: "string \<Rightarrow> string" where
  "filePath name = ''content/'' @ name"

text \<open>
  The loop of \<open>getBlogPost\<close> over the directory entries: \<open>Some post\<close> is its
  \<open>return post, nil\<close>, \<open>None\<close> is falling out of the loop.
\<close>

fun getBlogPost_scan :: "env \<Rightarrow> string \<Rightarrow> string list \<Rightarrow> BlogPost option" where
  "getBlogPost_scan E slug [] = None"
| "getBlogPost_scan E slug (name # files) =
     (if \<not> strings_HasSuffix name ''.md'' then getBlogPost_scan E slug files
      else
        case os_ReadFile E (filePath name) of
          Inl err \<Rightarrow> getBlogPost_scan E slug files
        | Inr content \<Rightarrow>
            (case parseMarkdownFile E content of
               Inl err \<Rightarrow> getBlogPost_scan E slug files
             | Inr post \<Rightarrow>
                 if Slug post = slug then Some post else getBlogPost_scan E slug files))"

text \<open>The message of \<open>fmt.Errorf("blog post with slug '%s' not found", slug)\<close>.\<close>

definition notFoundMessage :: "string \<Rightarrow> string" where
  "notFoundMessage slug =
     ''blog post with slug '' @ [CHR 0x27] @ slug @ [CHR 0x27] @ '' not found''"

definition getBlogPost :: "env \<Rightarrow> string \<Rightarrow> go_error + BlogPost" where
  "getBlogPost E slug =
     (case os_ReadDir E contentDir of
        Inl err \<Rightarrow> Inl (OsError err)
      | Inr files \<Rightarrow>
          (case getBlogPost_scan E slug files of
             Some post \<Rightarrow> Inr post
           | None \<Rightarrow> Inl (Errorf (notFoundMessage slug))))"

text \<open>
  The loop of \<open>getAllBlogPosts\<close>, with the slice \<open>posts\<close> as its accumulator. A file
  that cannot be read or parsed is logged and the loop goes on; the log is not part of
  the result.
\<close>

fun getAllBlogPosts_scan :: "env \<Rightarrow> string list \<Rightarrow> BlogPost list \<Rightarrow> BlogPost list" where
  "getAllBlogPosts_scan E [] posts = posts"
| "getAllBlogPosts_scan E (name # files) posts =
     (if \<not> strings_HasSuffix name ''.md'' then getAllBlogPosts_scan E files posts
      else
        case os_ReadFile E (filePath name) of
          Inl err \<Rightarrow> getAllBlogPosts_scan E files posts
        | Inr content \<Rightarrow>
            (case parseMarkdownFile E content of
               Inl err \<Rightarrow> getAllBlogPosts_scan E files posts
             | Inr post \<Rightarrow> getAllBlogPosts_scan E files (posts @ [post])))"

definition getAllBlogPosts :: "env \<Rightarrow> go_error + BlogPost list" where
  "getAllBlogPosts E =
     (if os_IsNotExist (os_Stat E contentDir) then Inr []
      else
        case os_ReadDir E contentDir of
          Inl err \<Rightarrow> Inl (OsError err)
        | Inr files \<Rightarrow> Inr (getAllBlogPosts_scan E files []))"

subsection \<open>The handler of a single post\<close>

text \<open>
  The route \<open>/blog/:slug\<close> answers any error of \<open>getBlogPost\<close> with status 404 and
  renders the template \<open>post\<close> otherwise.
\<close>

datatype response = SendString nat string | Render string string BlogPost

definition blogSlugHandler :: "env \<Rightarrow> string \<Rightarrow> response" where
  "blogSlugHandler E slug =
     (case getBlogPost E slug of
        Inl err \<Rightarrow> SendString 404 ''Blog post not found''
      | Inr post \<Rightarrow> Render ''post'' (Title post) post)"

section \<open>Words of the specification\<close>

text \<open>
  The reading of the delimiter as a line of its own, in the words of the
  specification: the text is the three hyphens alone, or they are followed by a line
  break.
\<close>

definition spec_beginsWithDelimiterLine :: "string \<Rightarrow> bool" where
  "spec_beginsWithDelimiterLine s \<longleftrightarrow>
     s = ''---'' \<or> prefix (''---'' @ [CHR 0x0A]) s \<or> prefix (''---'' @ [CHR 0x0D, CHR 0x0A]) s"

text \<open>
  A document omits a field, as far as the deserializer shows it: deserializing the
  document leaves the field of the target as it was before the call.
\<close>

definition leavesField :: "env \<Rightarrow> string \<Rightarrow> (BlogMetadata \<Rightarrow> 'a) \<Rightarrow> bool" where
  "leavesField E doc field \<longleftrightarrow>
     (\<forall>m m'. yaml_Unmarshal E doc m = Inr m' \<longrightarrow> field m' = field m)"

section \<open>Sample collaborators\<close>

text \<open>
  Concrete collaborators, to run the definitions on concrete inputs. The sample
  deserializer understands a document of one line, \<open>slug: s\<close> or \<open>title: t\<close>, and the
  empty document, and reports an error for anything else; it assigns only the field
  the document names. The sample renderer wraps the body in one paragraph. The sample
  file system has one directory, given by its listing (\<open>None\<close> when it does not exist)
  and the contents of its files.
\<close>

definition sampleUnmarshal :: "string \<Rightarrow> BlogMetadata \<Rightarrow> string + BlogMetadata" where
  "sampleUnmarshal text m =
     (if text = [] then Inr m
      else if prefix ''slug: '' text then Inr (m\<lparr>Slug := drop 6 text\<rparr>)
      else if prefix ''title: '' text then Inr (m\<lparr>Title := drop 7 text\<rparr>)
      else Inl ''yaml: unsupported document'')"

definition sampleRun :: "string \<Rightarrow> string" where
  "sampleRun body = ''<p>'' @ body @ ''</p>''"

definition sampleEnv :: "string list option \<Rightarrow> (string \<times> string) list \<Rightarrow> env" where
  "sampleEnv listing files =
     \<lparr>os_Stat = (\<lambda>path.
         if path = ''./content'' \<and> listing \<noteq> None then None else Some ErrNotExist),
      os_ReadDir = (\<lambda>path.
         case listing of
           None \<Rightarrow> Inl ErrNotExist
         | Some names \<Rightarrow> if path = ''./content'' then Inr names else Inl ErrNotExist),
      os_ReadFile = (\<lambda>path.
         case map_of files path of None \<Rightarrow> Inl ErrNotExist | Some text \<Rightarrow> Inr text),
      yaml_Unmarshal = sampleUnmarshal,
      blackfriday_Run = sampleRun\<rparr>"

text \<open>
  Sample files. \<open>sampleHello\<close> is a post with the slug \<open>hello\<close>; \<open>sampleHelloAgain\<close>
  declares the same slug with another body; \<open>sampleOpenOnly\<close> has an opening delimiter
  and no closing one; \<open>sampleThreeDelimiters\<close> has a third \<open>---\<close> inside its body.
\<close>

definition sampleHello :: string where
  "sampleHello =
     ''---'' @ [CHR 0x0A] @ ''slug: hello'' @ [CHR 0x0A] @ ''---'' @ [CHR 0x0A] @
     ''# Hi'' @ [CHR 0x0A]"

definition sampleHelloAgain :: string where
  "sampleHelloAgain =
     ''---'' @ [CHR 0x0A] @ ''slug: hello'' @ [CHR 0x0A] @ ''---'' @ [CHR 0x0A] @
     ''second'' @ [CHR 0x0A]"

definition sampleOpenOnly :: string where
  "sampleOpenOnly = ''---'' @ [CHR 0x0A] @ ''title: x'' @ [CHR 0x0A] @ ''# Hi''"

definition sampleThreeDelimiters :: string where
  "sampleThreeDelimiters =
     ''---'' @ [CHR 0x0A] @ ''slug: a'' @ [CHR 0x0A] @ ''---'' @ [CHR 0x0A] @
     ''first'' @ [CHR 0x0A] @ ''---'' @ [CHR 0x0A] @ ''second'' @ [CHR 0x0A]"

definition samplePost :: "string \<Rightarrow> string \<Rightarrow> BlogPost" where
  "samplePost slug body =
     \<lparr>Title = [], Date = zeroTime, Author = [], Description = [], Tags = [], Slug = slug,
      Content = body, HTMLContent = ''<p>'' @ body @ ''</p>''\<rparr>"

text \<open>
  Sample sites: \<open>sampleSite\<close> holds a file without closing delimiter, two posts that
  declare the slug \<open>hello\<close> and a file that is not Markdown; \<open>sampleTwoFiles\<close> holds one
  valid post and one file with malformed frontmatter; \<open>sampleNoDirectory\<close> has no content
  directory.
\<close>

definition sampleSite :: env where
  "sampleSite =
     sampleEnv (Some [''broken.md'', ''hello.md'', ''again.md'', ''notes.txt''])
       [(''content/broken.md'', sampleOpenOnly), (''content/hello.md'', sampleHello),
        (''content/again.md'', sampleHelloAgain), (''content/notes.txt'', ''plain'')]"

definition sampleTwoFiles :: env where
  "sampleTwoFiles =
     sampleEnv (Some [''broken.md'', ''hello.md''])
       [(''content/broken.md'', sampleOpenOnly), (''content/hello.md'', sampleHello)]"

definition sampleNoDirectory :: env where
  "sampleNoDirectory = sampleEnv None []"

section \<open>Facts about splitting\<close>

lemma strings_Index_None_iff:
  "sep \<noteq> [] \<Longrightarrow> strings_Index s sep = None \<longleftrightarrow> \<not> sublist sep s"
  by (induction s) (auto simp: sublist_Cons_right)

lemma strings_Index_Some_split:
  "strings_Index s sep = Some m \<Longrightarrow> s = take m s @ sep @ drop (m + length sep) s"
proof (induction s arbitrary: m)
  case Nil
  then show ?case by (simp split: if_splits)
next
  case (Cons c cs)
  show ?case
  proof (cases "prefix sep (c # cs)")
    case True
    with Cons.prems have "m = 0" by simp
    with True show ?thesis by (auto simp: prefix_def)
  next
    case False
    with Cons.prems obtain k where k: "strings_Index cs sep = Some k" "m = Suc k" by auto
    from Cons.IH [OF k(1)] k(2) show ?thesis by simp
  qed
qed

lemma strings_Index_Some_first:
  "strings_Index s sep = Some m \<Longrightarrow> j < m \<Longrightarrow> \<not> prefix sep (drop j s)"
proof (induction s arbitrary: m j)
  case Nil
  then show ?case by (simp split: if_splits)
next
  case (Cons c cs)
  show ?case
  proof (cases "prefix sep (c # cs)")
    case True
    with Cons.prems show ?thesis by simp
  next
    case False
    with Cons.prems obtain k where k: "strings_Index cs sep = Some k" "m = Suc k" by auto
    show ?thesis
    proof (cases j)
      case 0
      with False show ?thesis by simp
    next
      case (Suc i)
      with Cons.prems(2) k(2) have "i < k" by simp
      from Cons.IH [OF k(1) this] Suc show ?thesis by simp
    qed
  qed
qed

lemma strings_Index_Some_length:
  "strings_Index s sep = Some m \<Longrightarrow> m + length sep \<le> length s"
proof (induction s arbitrary: m)
  case Nil
  then show ?case by (simp split: if_splits)
next
  case (Cons c cs)
  show ?case
  proof (cases "prefix sep (c # cs)")
    case True
    with Cons.prems have "m = 0" by simp
    with True show ?thesis using prefix_length_le by fastforce
  next
    case False
    with Cons.prems obtain k where k: "strings_Index cs sep = Some k" "m = Suc k" by auto
    from Cons.IH [OF k(1)] k(2) show ?thesis by simp
  qed
qed

lemma strings_SplitN_2:
  assumes "sep \<noteq> []"
  shows "strings_SplitN s sep 2 =
     (case strings_Index s sep of None \<Rightarrow> [s] | Some m \<Rightarrow> [take m s, drop (m + length sep) s])"
proof (cases s)
  case Nil
  with assms show ?thesis
    by (simp add: strings_SplitN_def)
next
  case (Cons c cs)
  then have "min 2 (length s + 1) - 1 = Suc 0"
    by simp
  then show ?thesis
    by (simp add: strings_SplitN_def split: option.splits)
qed

section \<open>Facts about trimming\<close>

lemma trimLeftSpace_suffix: "suffix (trimLeftSpace s) s"
proof (induction s rule: trimLeftSpace.induct)
  case (1 s)
  show ?case
  proof (cases "leadingSpace s = 0")
    case True
    then show ?thesis by (simp add: trimLeftSpace.simps)
  next
    case False
    with "1" have "suffix (trimLeftSpace (drop (leadingSpace s) s)) (drop (leadingSpace s) s)"
      by simp
    then have "suffix (trimLeftSpace (drop (leadingSpace s) s)) s"
      using suffix_drop suffix_order.trans by blast
    with False show ?thesis by (subst trimLeftSpace.simps) simp
  qed
qed

lemma trimLeftSpace_done: "leadingSpace (trimLeftSpace s) = 0"
proof (induction s rule: trimLeftSpace.induct)
  case (1 s)
  show ?case
  proof (cases "leadingSpace s = 0")
    case True
    then show ?thesis by (simp add: trimLeftSpace.simps)
  next
    case False
    with "1" show ?thesis by (subst trimLeftSpace.simps) simp
  qed
qed

lemma trimRightSpace_prefix: "prefix (trimRightSpace s) s"
proof (induction s rule: trimRightSpace.induct)
  case (1 s)
  show ?case
  proof (cases "trailingSpace s = 0")
    case True
    then show ?thesis by (simp add: trimRightSpace.simps)
  next
    case False
    with "1" have "prefix (trimRightSpace (take (length s - trailingSpace s) s))
        (take (length s - trailingSpace s) s)"
      by simp
    then have "prefix (trimRightSpace (take (length s - trailingSpace s) s)) s"
      using take_is_prefix prefix_order.trans by blast
    with False show ?thesis by (subst trimRightSpace.simps) simp
  qed
qed

lemma trimRightSpace_done: "trailingSpace (trimRightSpace s) = 0"
proof (induction s rule: trimRightSpace.induct)
  case (1 s)
  show ?case
  proof (cases "trailingSpace s = 0")
    case True
    then show ?thesis by (simp add: trimRightSpace.simps)
  next
    case False
    with "1" show ?thesis by (subst trimRightSpace.simps) simp
  qed
qed

lemma leadingSpace_prefix:
  assumes "prefix t s" and "leadingSpace s = 0"
  shows "leadingSpace t = 0"
proof (cases t)
  case Nil
  then show ?thesis by (simp add: leadingSpace_def)
next
  case (Cons c cs)
  with assms(1) obtain r where s: "s = c # r" and cs: "prefix cs r"
    by (cases s) auto
  from assms(2) s have a: "\<not> asciiSpace c"
    by (auto simp: leadingSpace_def split: if_splits)
  have len: "e \<in> set unicodeSpaces \<Longrightarrow> length e \<noteq> 0" for e
    by (auto simp: unicodeSpaces_def)
  have n: "find (\<lambda>e. prefix e s) unicodeSpaces = None"
  proof (cases "find (\<lambda>e. prefix e s) unicodeSpaces")
    case None
    then show ?thesis .
  next
    case (Some e)
    then have "e \<in> set unicodeSpaces"
      by (auto simp: find_Some_iff)
    then have "length e \<noteq> 0" by (rule len)
    moreover from assms(2) s a Some have "length e = 0"
      by (simp add: leadingSpace_def)
    ultimately show ?thesis by simp
  qed
  then have "\<forall>e\<in>set unicodeSpaces. \<not> prefix e s"
    by (simp add: find_None_iff)
  with assms(1) have "\<forall>e\<in>set unicodeSpaces. \<not> prefix e t"
    using prefix_order.trans by blast
  then have "find (\<lambda>e. prefix e t) unicodeSpaces = None"
    by (simp add: find_None_iff)
  with a Cons show ?thesis by (simp add: leadingSpace_def)
qed

text \<open>
  The result of \<open>strings.TrimSpace\<close> is a part of its argument that neither starts
  nor ends with white space.
\<close>

lemma strings_TrimSpace_trimmed:
  "sublist (strings_TrimSpace s) s \<and>
   leadingSpace (strings_TrimSpace s) = 0 \<and> trailingSpace (strings_TrimSpace s) = 0"
proof -
  have "sublist (trimRightSpace (trimLeftSpace s)) s"
    using trimRightSpace_prefix [of "trimLeftSpace s"] trimLeftSpace_suffix [of s]
    by (auto simp: sublist_altdef')
  moreover have "leadingSpace (trimRightSpace (trimLeftSpace s)) = 0"
    using trimRightSpace_prefix trimLeftSpace_done by (rule leadingSpace_prefix)
  ultimately show ?thesis
    by (simp add: strings_TrimSpace_def trimRightSpace_done)
qed

section \<open>The parser, case by case\<close>

text \<open>
  The three failures and the success of \<open>parseMarkdownFile\<close>, with the two pieces of
  the split written as the text before and after the first \<open>---\<close> that follows the
  opening one.
\<close>

lemma parseMarkdownFile_cases:
  "parseMarkdownFile E c =
     (if \<not> prefix ''---'' c then Inl (Errorf ''no frontmatter found'')
      else
        case strings_Index (drop 3 c) ''---'' of
          None \<Rightarrow> Inl (Errorf ''invalid frontmatter format'')
        | Some m \<Rightarrow>
            (case yaml_Unmarshal E (strings_TrimSpace (take m (drop 3 c))) zeroMetadata of
               Inl err \<Rightarrow> Inl (Errorf (''error parsing frontmatter: '' @ err))
             | Inr md \<Rightarrow>
                 Inr \<lparr>Title = Title md, Date = Date md, Author = Author md,
                      Description = Description md, Tags = Tags md, Slug = Slug md,
                      Content = strings_TrimSpace (drop (m + 3) (drop 3 c)),
                      HTMLContent =
                        blackfriday_Run E (strings_TrimSpace (drop (m + 3) (drop 3 c)))\<rparr>))"
  by (simp add: parseMarkdownFile_def strings_SplitN_2 strings_HasPrefix_def Let_def
      split: option.splits sum.splits)

text \<open>
  An error of the deserializer is an error of the parser: there is no fallback for a
  metadata block that the deserializer rejects, whatever field made it do so.
\<close>

lemma parseMarkdownFile_unmarshal_error:
  assumes "strings_HasPrefix content ''---''"
    and "strings_Index (drop 3 content) ''---'' = Some m"
    and "yaml_Unmarshal E (strings_TrimSpace (take m (drop 3 content))) zeroMetadata = Inl err"
  shows "parseMarkdownFile E content = Inl (Errorf (''error parsing frontmatter: '' @ err))"
  using assms by (simp add: parseMarkdownFile_cases strings_HasPrefix_def)

section \<open>Claims about the parser\<close>

text \<open>
  Claim C7. For every input that begins with the opening delimiter and has no further
  occurrence of three hyphens after it, \<open>parseMarkdownFile\<close> fails with the error
  "invalid frontmatter format", whatever the deserializer and the renderer are.
\<close>

theorem parse_without_closing_delimiter:
  assumes "strings_HasPrefix content ''---''"
    and "\<not> sublist ''---'' (drop 3 content)"
  shows "parseMarkdownFile E content = Inl (Errorf ''invalid frontmatter format'')"
proof -
  from assms(2) have "strings_Index (drop 3 content) ''---'' = None"
    by (simp add: strings_Index_None_iff)
  with assms(1) show ?thesis
    by (simp add: parseMarkdownFile_cases strings_HasPrefix_def)
qed

theorem parse_without_closing_delimiter_witness:
  "strings_HasPrefix (''---'' @ [CHR 0x0A] @ ''title: x'' @ [CHR 0x0A] @ ''# Hi'') ''---'' \<and>
   parseMarkdownFile (sampleEnv None [])
     (''---'' @ [CHR 0x0A] @ ''title: x'' @ [CHR 0x0A] @ ''# Hi'') =
     Inl (Errorf ''invalid frontmatter format'')"
proof -
  have p: "strings_HasPrefix (''---'' @ [CHR 0x0A] @ ''title: x'' @ [CHR 0x0A] @ ''# Hi'') ''---''"
    by (simp add: strings_HasPrefix_def)
  have n: "\<not> sublist ''---'' (drop 3 (''---'' @ [CHR 0x0A] @ ''title: x'' @ [CHR 0x0A] @ ''# Hi''))"
    by code_simp
  from p parse_without_closing_delimiter [OF p n] show ?thesis by simp
qed

text \<open>
  Claim C3, as amended. \<open>parseMarkdownFile\<close> fails with "no frontmatter found" exactly
  when its input does not begin with the three characters \<open>---\<close>; the check is on
  the prefix alone, not on a line of its own.
\<close>

theorem parse_no_frontmatter_iff:
  "parseMarkdownFile E content = Inl (Errorf ''no frontmatter found'') \<longleftrightarrow>
     \<not> strings_HasPrefix content ''---''"
  by (simp add: parseMarkdownFile_cases strings_HasPrefix_def split: option.splits sum.splits)

theorem parse_no_frontmatter_iff_witness:
  "parseMarkdownFile (sampleEnv None []) ''# Hi'' = Inl (Errorf ''no frontmatter found'') \<and>
   parseMarkdownFile (sampleEnv None []) (''--- '' @ ''slug: a'' @ '' ---b'') \<noteq>
     Inl (Errorf ''no frontmatter found'')"
  using parse_no_frontmatter_iff [of "sampleEnv None []" "''# Hi''"]
    parse_no_frontmatter_iff [of "sampleEnv None []" "''--- '' @ ''slug: a'' @ '' ---b''"]
  by (simp add: strings_HasPrefix_def)

text \<open>
  Claim C3, as stated, fails: the text \<open>----\<close> does not begin with a line that
  consists of three hyphens, and \<open>parseMarkdownFile\<close> does not answer "no frontmatter
  found" but "invalid frontmatter format".
\<close>

theorem parse_delimiter_line_counterexample:
  "\<not> spec_beginsWithDelimiterLine ''----'' \<and>
   parseMarkdownFile (sampleEnv None []) ''----'' \<noteq> Inl (Errorf ''no frontmatter found'') \<and>
   parseMarkdownFile (sampleEnv None []) ''----'' = Inl (Errorf ''invalid frontmatter format'')"
  by (simp add: spec_beginsWithDelimiterLine_def parseMarkdownFile_cases)

text \<open>
  Claim C6. When \<open>parseMarkdownFile\<close> accepts an input, the input is the opening
  \<open>---\<close>, a metadata block, the closing \<open>---\<close> and a rest that runs to the end of the
  file; the closing delimiter is the first \<open>---\<close> after the opening one (no occurrence
  starts inside the metadata block), and \<open>Content\<close> is the rest with leading and
  trailing white space removed: a part of the rest that neither starts nor ends with
  white space. The rest is taken whole, so a third \<open>---\<close> stays in it.
\<close>

theorem parse_body_after_closing_delimiter:
  assumes "parseMarkdownFile E content = Inr post"
  shows "\<exists>fm rest. content = ''---'' @ fm @ ''---'' @ rest \<and>
           (\<forall>j<length fm. \<not> prefix ''---'' (drop j (fm @ ''---'' @ rest))) \<and>
           Content post = strings_TrimSpace rest \<and> sublist (Content post) rest \<and>
           leadingSpace (Content post) = 0 \<and> trailingSpace (Content post) = 0"
proof -
  from assms have p: "prefix ''---'' content"
    by (simp add: parseMarkdownFile_cases split: if_splits)
  then have c: "content = ''---'' @ drop 3 content"
    by (auto simp: prefix_def)
  from assms p obtain m where m: "strings_Index (drop 3 content) ''---'' = Some m"
    by (auto simp: parseMarkdownFile_cases split: option.splits)
  let ?fm = "take m (drop 3 content)"
  let ?rest = "drop (m + 3) (drop 3 content)"
  from strings_Index_Some_split [OF m] have s: "drop 3 content = ?fm @ ''---'' @ ?rest"
    by simp
  from strings_Index_Some_length [OF m] have l: "length ?fm = m"
    by simp
  have first: "\<forall>j<length ?fm. \<not> prefix ''---'' (drop j (?fm @ ''---'' @ ?rest))"
    using strings_Index_Some_first [OF m] l s by metis
  from assms p m have body: "Content post = strings_TrimSpace ?rest"
    by (auto simp: parseMarkdownFile_cases split: sum.splits)
  from c s have whole: "content = ''---'' @ ?fm @ ''---'' @ ?rest"
    by metis
  from body have trimmed: "sublist (Content post) ?rest"
    "leadingSpace (Content post) = 0" "trailingSpace (Content post) = 0"
    by (simp_all add: strings_TrimSpace_trimmed)
  from whole first body trimmed show ?thesis by blast
qed

theorem parse_body_after_closing_delimiter_witness:
  "parseMarkdownFile sampleNoDirectory sampleThreeDelimiters =
     Inr (samplePost ''a'' (''first'' @ [CHR 0x0A] @ ''---'' @ [CHR 0x0A] @ ''second'')) \<and>
   (\<exists>fm rest. sampleThreeDelimiters = ''---'' @ fm @ ''---'' @ rest \<and>
      (\<forall>j<length fm. \<not> prefix ''---'' (drop j (fm @ ''---'' @ rest))) \<and>
      ''first'' @ [CHR 0x0A] @ ''---'' @ [CHR 0x0A] @ ''second'' = strings_TrimSpace rest \<and>
      sublist (''first'' @ [CHR 0x0A] @ ''---'' @ [CHR 0x0A] @ ''second'') rest \<and>
      leadingSpace (''first'' @ [CHR 0x0A] @ ''---'' @ [CHR 0x0A] @ ''second'') = 0 \<and>
      trailingSpace (''first'' @ [CHR 0x0A] @ ''---'' @ [CHR 0x0A] @ ''second'') = 0)"
proof -
  have e: "parseMarkdownFile sampleNoDirectory sampleThreeDelimiters =
     Inr (samplePost ''a'' (''first'' @ [CHR 0x0A] @ ''---'' @ [CHR 0x0A] @ ''second''))"
    by code_simp
  from e parse_body_after_closing_delimiter [OF e] show ?thesis
    by (simp add: samplePost_def)
qed

text \<open>
  Claim C9. Take an input with both delimiters whose metadata block deserializes
  successfully into the zero value of \<open>BlogMetadata\<close>. Then \<open>parseMarkdownFile\<close>
  succeeds, and every recognized field that the block omits (the deserializer leaves it
  as it was) has its zero value on the post: the empty string, the zero time, no tags.
\<close>

theorem parse_omitted_fields_default:
  assumes "strings_HasPrefix content ''---''"
    and "strings_Index (drop 3 content) ''---'' = Some m"
    and "doc = strings_TrimSpace (take m (drop 3 content))"
    and "yaml_Unmarshal E doc zeroMetadata = Inr metadata"
  shows "\<exists>post. parseMarkdownFile E content = Inr post \<and>
           (leavesField E doc Title \<longrightarrow> Title post = []) \<and>
           (leavesField E doc Date \<longrightarrow> Date post = zeroTime) \<and>
           (leavesField E doc Author \<longrightarrow> Author post = []) \<and>
           (leavesField E doc Description \<longrightarrow> Description post = []) \<and>
           (leavesField E doc Tags \<longrightarrow> Tags post = []) \<and>
           (leavesField E doc Slug \<longrightarrow> Slug post = [])"
proof -
  let ?body = "strings_TrimSpace (drop (m + 3) (drop 3 content))"
  let ?post = "\<lparr>Title = Title metadata, Date = Date metadata, Author = Author metadata,
      Description = Description metadata, Tags = Tags metadata, Slug = Slug metadata,
      Content = ?body, HTMLContent = blackfriday_Run E ?body\<rparr>"
  from assms have ok: "parseMarkdownFile E content = Inr ?post"
    by (simp add: parseMarkdownFile_cases strings_HasPrefix_def)
  have frame: "field metadata = field zeroMetadata" if "leavesField E doc field"
    for field :: "BlogMetadata \<Rightarrow> 'b"
    using that assms(4) by (auto simp: leavesField_def)
  have "leavesField E doc Title \<longrightarrow> Title ?post = []"
    using frame [of Title] by (simp add: zeroMetadata_def)
  moreover have "leavesField E doc Date \<longrightarrow> Date ?post = zeroTime"
    using frame [of Date] by (simp add: zeroMetadata_def)
  moreover have "leavesField E doc Author \<longrightarrow> Author ?post = []"
    using frame [of Author] by (simp add: zeroMetadata_def)
  moreover have "leavesField E doc Description \<longrightarrow> Description ?post = []"
    using frame [of Description] by (simp add: zeroMetadata_def)
  moreover have "leavesField E doc Tags \<longrightarrow> Tags ?post = []"
    using frame [of Tags] by (simp add: zeroMetadata_def)
  moreover have "leavesField E doc Slug \<longrightarrow> Slug ?post = []"
    using frame [of Slug] by (simp add: zeroMetadata_def)
  ultimately show ?thesis using ok by blast
qed

theorem parse_omitted_fields_default_witness:
  "\<exists>post. parseMarkdownFile sampleNoDirectory sampleHello = Inr post \<and>
     Title post = [] \<and> Date post = zeroTime \<and> Author post = [] \<and>
     Description post = [] \<and> Tags post = [] \<and> Slug post = ''hello''"
proof -
  have p: "strings_HasPrefix sampleHello ''---''"
    by code_simp
  have i: "strings_Index (drop 3 sampleHello) ''---'' = Some 13"
    by code_simp
  have d: "''slug: hello'' = strings_TrimSpace (take 13 (drop 3 sampleHello))"
    by code_simp
  have u: "yaml_Unmarshal sampleNoDirectory ''slug: hello'' zeroMetadata =
      Inr (zeroMetadata\<lparr>Slug := ''hello''\<rparr>)"
    by (simp add: sampleNoDirectory_def sampleEnv_def sampleUnmarshal_def)
  have um: "yaml_Unmarshal sampleNoDirectory = sampleUnmarshal"
    by (simp add: sampleNoDirectory_def sampleEnv_def)
  have l: "leavesField sampleNoDirectory ''slug: hello'' Title"
    "leavesField sampleNoDirectory ''slug: hello'' Date"
    "leavesField sampleNoDirectory ''slug: hello'' Author"
    "leavesField sampleNoDirectory ''slug: hello'' Description"
    "leavesField sampleNoDirectory ''slug: hello'' Tags"
    by (auto simp: leavesField_def um sampleUnmarshal_def)
  have s: "parseMarkdownFile sampleNoDirectory sampleHello = Inr (samplePost ''hello'' ''# Hi'')"
    by code_simp
  from parse_omitted_fields_default [OF p i d u] l s show ?thesis
    by (auto simp: samplePost_def)
qed

section \<open>Facts about the two scans\<close>

lemma getBlogPost_scan_append:
  "getBlogPost_scan E slug (xs @ ys) =
     (case getBlogPost_scan E slug xs of
        Some post \<Rightarrow> Some post
      | None \<Rightarrow> getBlogPost_scan E slug ys)"
  by (induction xs) (simp_all split: sum.splits)

lemma getBlogPost_scan_no_match:
  assumes "\<forall>n\<in>set files. \<forall>c p. strings_HasSuffix n ''.md'' \<longrightarrow>
             os_ReadFile E (filePath n) = Inr c \<longrightarrow> parseMarkdownFile E c = Inr p \<longrightarrow>
             Slug p \<noteq> slug"
  shows "getBlogPost_scan E slug files = None"
  using assms by (induction files) (auto split: sum.splits)

lemma getAllBlogPosts_scan_eq:
  "getAllBlogPosts_scan E files posts =
     posts @
     List.map_filter
       (\<lambda>name. case os_ReadFile E (filePath name) of
                  Inl err \<Rightarrow> None
                | Inr text \<Rightarrow>
                    (case parseMarkdownFile E text of Inl err \<Rightarrow> None | Inr post \<Rightarrow> Some post))
       (filter (\<lambda>name. strings_HasSuffix name ''.md'') files)"
  by (induction files arbitrary: posts) (simp_all split: sum.splits)

section \<open>Claims about the content loader\<close>

text \<open>
  Claim C1. When the directory is read and no entry is a Markdown file that is read
  and parsed to a post with the requested slug, \<open>getBlogPost\<close> returns the error made
  by \<open>fmt.Errorf\<close> with the message "blog post with slug '...' not found". It is not
  the error of a file system call, and the handler answers it with status 404.
\<close>

theorem getBlogPost_not_found:
  assumes "os_ReadDir E contentDir = Inr files"
    and "\<forall>n\<in>set files. \<forall>c p. strings_HasSuffix n ''.md'' \<longrightarrow>
           os_ReadFile E (filePath n) = Inr c \<longrightarrow> parseMarkdownFile E c = Inr p \<longrightarrow>
           Slug p \<noteq> slug"
  shows "getBlogPost E slug = Inl (Errorf (notFoundMessage slug)) \<and>
         (\<forall>e. getBlogPost E slug \<noteq> Inl (OsError e)) \<and>
         blogSlugHandler E slug = SendString 404 ''Blog post not found''"
proof -
  from assms(2) have "getBlogPost_scan E slug files = None"
    by (rule getBlogPost_scan_no_match)
  with assms(1) have r: "getBlogPost E slug = Inl (Errorf (notFoundMessage slug))"
    by (simp add: getBlogPost_def)
  then show ?thesis
    by (simp add: blogSlugHandler_def)
qed

lemma sampleSite_files:
  "os_ReadDir sampleSite contentDir =
     Inr [''broken.md'', ''hello.md'', ''again.md'', ''notes.txt'']"
  "os_ReadFile sampleSite (filePath ''broken.md'') = Inr sampleOpenOnly"
  "os_ReadFile sampleSite (filePath ''hello.md'') = Inr sampleHello"
  "os_ReadFile sampleSite (filePath ''again.md'') = Inr sampleHelloAgain"
  by code_simp+

lemma sampleSite_parse:
  "parseMarkdownFile sampleSite sampleOpenOnly = Inl (Errorf ''invalid frontmatter format'')"
  "parseMarkdownFile sampleSite sampleHello = Inr (samplePost ''hello'' ''# Hi'')"
  "parseMarkdownFile sampleSite sampleHelloAgain = Inr (samplePost ''hello'' ''second'')"
  by code_simp+

lemma sample_suffix:
  "strings_HasSuffix ''broken.md'' ''.md''"
  "strings_HasSuffix ''hello.md'' ''.md''"
  "strings_HasSuffix ''again.md'' ''.md''"
  "\<not> strings_HasSuffix ''notes.txt'' ''.md''"
  by code_simp+

theorem getBlogPost_not_found_witness:
  "getBlogPost sampleSite ''missing'' =
     Inl (Errorf (''blog post with slug '' @ [CHR 0x27] @ ''missing'' @ [CHR 0x27] @ '' not found'')) \<and>
   blogSlugHandler sampleSite ''missing'' = SendString 404 ''Blog post not found''"
proof -
  have h: "\<forall>n\<in>set [''broken.md'', ''hello.md'', ''again.md'', ''notes.txt''].
      \<forall>c p. strings_HasSuffix n ''.md'' \<longrightarrow>
        os_ReadFile sampleSite (filePath n) = Inr c \<longrightarrow> parseMarkdownFile sampleSite c = Inr p \<longrightarrow>
        Slug p \<noteq> ''missing''"
    using sampleSite_files sampleSite_parse sample_suffix
    by (auto simp: samplePost_def)
  from getBlogPost_not_found [OF sampleSite_files(1) h] show ?thesis
    by (simp add: notFoundMessage_def)
qed

text \<open>
  Claim C8. \<open>getBlogPost\<close> returns the post of the first entry, in the order of the
  directory listing, that is a Markdown file, is read, is parsed and declares the
  requested slug. The entries after it play no part: they may declare the same slug.
\<close>

theorem getBlogPost_first_match:
  assumes "os_ReadDir E contentDir = Inr (before @ name # after)"
    and "\<forall>n\<in>set before. \<forall>c p. strings_HasSuffix n ''.md'' \<longrightarrow>
           os_ReadFile E (filePath n) = Inr c \<longrightarrow> parseMarkdownFile E c = Inr p \<longrightarrow>
           Slug p \<noteq> slug"
    and "strings_HasSuffix name ''.md''"
    and "os_ReadFile E (filePath name) = Inr content"
    and "parseMarkdownFile E content = Inr post"
    and "Slug post = slug"
  shows "getBlogPost E slug = Inr post"
proof -
  from assms(2) have "getBlogPost_scan E slug before = None"
    by (rule getBlogPost_scan_no_match)
  moreover from assms(3-6) have "getBlogPost_scan E slug (name # after) = Some post"
    by simp
  ultimately have "getBlogPost_scan E slug (before @ name # after) = Some post"
    by (simp add: getBlogPost_scan_append)
  with assms(1) show ?thesis
    by (simp add: getBlogPost_def)
qed

theorem getBlogPost_first_match_witness:
  "getBlogPost sampleSite ''hello'' = Inr (samplePost ''hello'' ''# Hi'') \<and>
   parseMarkdownFile sampleSite sampleHelloAgain = Inr (samplePost ''hello'' ''second'')"
proof -
  have d: "os_ReadDir sampleSite contentDir =
      Inr ([''broken.md''] @ ''hello.md'' # [''again.md'', ''notes.txt''])"
    using sampleSite_files(1) by simp
  have h: "\<forall>n\<in>set [''broken.md'']. \<forall>c p. strings_HasSuffix n ''.md'' \<longrightarrow>
        os_ReadFile sampleSite (filePath n) = Inr c \<longrightarrow> parseMarkdownFile sampleSite c = Inr p \<longrightarrow>
        Slug p \<noteq> ''hello''"
    using sampleSite_files sampleSite_parse by auto
  have s: "Slug (samplePost ''hello'' ''# Hi'') = ''hello''"
    by (simp add: samplePost_def)
  from getBlogPost_first_match
    [OF d h sample_suffix(2) sampleSite_files(3) sampleSite_parse(2) s] sampleSite_parse(3)
  show ?thesis by simp
qed

text \<open>
  Claim C10. When the content directory does not exist (\<open>os.Stat\<close> and \<open>os.ReadDir\<close>
  both report that), \<open>getBlogPost\<close> returns the error of \<open>os.ReadDir\<close> for every slug:
  not the not-found error and not a post; \<open>getAllBlogPosts\<close> returns the empty list.
\<close>

theorem getBlogPost_missing_directory:
  assumes "os_Stat E contentDir = Some ErrNotExist"
    and "os_ReadDir E contentDir = Inl ErrNotExist"
  shows "getBlogPost E slug = Inl (OsError ErrNotExist) \<and>
         getBlogPost E slug \<noteq> Inl (Errorf (notFoundMessage slug)) \<and>
         (\<forall>post. getBlogPost E slug \<noteq> Inr post) \<and>
         getAllBlogPosts E = Inr []"
  using assms by (simp add: getBlogPost_def getAllBlogPosts_def os_IsNotExist_def)

theorem getBlogPost_missing_directory_witness:
  "getBlogPost sampleNoDirectory ''hello'' = Inl (OsError ErrNotExist) \<and>
   getAllBlogPosts sampleNoDirectory = Inr []"
proof -
  have s: "os_Stat sampleNoDirectory contentDir = Some ErrNotExist"
    by code_simp
  have r: "os_ReadDir sampleNoDirectory contentDir = Inl ErrNotExist"
    by code_simp
  from getBlogPost_missing_directory [OF s r, of "''hello''"] show ?thesis by simp
qed

text \<open>
  Claim C4. When \<open>os.Stat\<close> reports that the content directory does not exist,
  \<open>getAllBlogPosts\<close> returns the empty list and no error.
\<close>

theorem getAllBlogPosts_missing_directory:
  assumes "os_Stat E contentDir = Some ErrNotExist"
  shows "getAllBlogPosts E = Inr []"
  using assms by (simp add: getAllBlogPosts_def os_IsNotExist_def)

theorem getAllBlogPosts_missing_directory_witness:
  "getAllBlogPosts (sampleEnv None [(''content/hello.md'', sampleHello)]) = Inr []"
proof -
  have s: "os_Stat (sampleEnv None [(''content/hello.md'', sampleHello)]) contentDir =
      Some ErrNotExist"
    by code_simp
  from getAllBlogPosts_missing_directory [OF s] show ?thesis .
qed

text \<open>
  Claim C5. When the directory exists and is read, \<open>getAllBlogPosts\<close> returns no
  error, and its posts are those of the Markdown entries that are read and parsed, in
  the order of the listing; an entry that fails to read or to parse adds nothing and
  stops nothing.
\<close>

theorem getAllBlogPosts_skips_failures:
  assumes "\<not> os_IsNotExist (os_Stat E contentDir)"
    and "os_ReadDir E contentDir = Inr files"
  shows "getAllBlogPosts E =
     Inr (List.map_filter
       (\<lambda>name. case os_ReadFile E (filePath name) of
                  Inl err \<Rightarrow> None
                | Inr text \<Rightarrow>
                    (case parseMarkdownFile E text of Inl err \<Rightarrow> None | Inr post \<Rightarrow> Some post))
       (filter (\<lambda>name. strings_HasSuffix name ''.md'') files))"
  using assms by (simp add: getAllBlogPosts_def getAllBlogPosts_scan_eq)

lemma sampleTwoFiles_files:
  "\<not> os_IsNotExist (os_Stat sampleTwoFiles contentDir)"
  "os_ReadDir sampleTwoFiles contentDir = Inr [''broken.md'', ''hello.md'']"
  "os_ReadFile sampleTwoFiles (filePath ''broken.md'') = Inr sampleOpenOnly"
  "os_ReadFile sampleTwoFiles (filePath ''hello.md'') = Inr sampleHello"
  "parseMarkdownFile sampleTwoFiles sampleOpenOnly = Inl (Errorf ''invalid frontmatter format'')"
  "parseMarkdownFile sampleTwoFiles sampleHello = Inr (samplePost ''hello'' ''# Hi'')"
  by code_simp+

theorem getAllBlogPosts_skips_failures_witness:
  "getAllBlogPosts sampleTwoFiles = Inr [samplePost ''hello'' ''# Hi'']"
  using getAllBlogPosts_skips_failures [OF sampleTwoFiles_files(1,2)]
  by (simp add: sampleTwoFiles_files sample_suffix)

end
